theory Spec2Isabelle
  imports Main
begin

section \<open>JavaScript strings\<close>

text \<open>
  A string is a list of characters. A string is truthy when it is not empty; an absent
  value (\<open>undefined\<close>, \<open>null\<close>) is \<open>None\<close> and is falsy.
\<close>

definition truthy :: "string \<Rightarrow> bool" where
  "truthy s = (s \<noteq> [])"

fun truthyOpt :: "string option \<Rightarrow> bool" where
  "truthyOpt None = False"
| "truthyOpt (Some s) = truthy s"

text \<open>\<open>a || b\<close> on strings, and on a value that may be absent.\<close>

definition orElse :: "string \<Rightarrow> string \<Rightarrow> string" where
  "orElse a b = (if truthy a then a else b)"

fun orElseOpt :: "string option \<Rightarrow> string \<Rightarrow> string" where
  "orElseOpt None b = b"
| "orElseOpt (Some a) b = orElse a b"

fun startsWith :: "string \<Rightarrow> string \<Rightarrow> bool" where
  "startsWith s [] = True"
| "startsWith [] (p # ps) = False"
| "startsWith (c # cs) (p # ps) = (c = p \<and> startsWith cs ps)"

text \<open>\<open>s.includes(sub)\<close>: \<open>sub\<close> occurs in \<open>s\<close> as a contiguous run.\<close>

fun includes_str :: "string \<Rightarrow> string \<Rightarrow> bool" where
  "includes_str [] sub = (sub = [])"
| "includes_str (c # cs) sub = (startsWith (c # cs) sub \<or> includes_str cs sub)"

text \<open>
  \<open>s.split(sep)\<close> for a separator of one character: the pieces between the separators,
  at least one piece.
\<close>

fun split_str :: "string \<Rightarrow> char \<Rightarrow> string list" where
  "split_str [] sep = [[]]"
| "split_str (c # cs) sep =
     (if c = sep then [] # split_str cs sep
      else (case split_str cs sep of
              [] \<Rightarrow> [[c]]
            | p # ps \<Rightarrow> (c # p) # ps))"

text \<open>\<open>xs[i]\<close>: \<open>undefined\<close> out of range.\<close>

definition at_index :: "'a list \<Rightarrow> nat \<Rightarrow> 'a option" where
  "at_index xs i = (if i < length xs then Some (xs ! i) else None)"

text \<open>
  \<open>s.trim()\<close> removes white space and line terminators at both ends. Of JavaScript's
  white space, the characters below 256 are the tab, line feed, vertical tab, form feed,
  carriage return, space and no-break space.
\<close>

definition isWhiteSpace :: "char \<Rightarrow> bool" where
  "isWhiteSpace c =
     (c \<in> set [CHR 0x09, CHR 0x0A, CHR 0x0B, CHR 0x0C, CHR 0x0D, CHR 0x20, CHR 0xA0])"

definition trim :: "string \<Rightarrow> string" where
  "trim s = rev (dropWhile isWhiteSpace (rev (dropWhile isWhiteSpace s)))"

section \<open>The proxy: \<open>app/api/assistants/vision/route.ts\<close>\<close>

subsection \<open>Data\<close>

text \<open>The parsed request body; either field may be missing from the JSON.\<close>

record vision_request =
  imageBase64 :: "string option"
  question :: "string option"

text \<open>The two bodies the handler returns: \<open>{ result }\<close> and \<open>{ error: ... }\<close>.\<close>

datatype json_body = ResultBody string | ErrorBody string

record http_response =
  status :: nat
  body :: json_body

text \<open>The argument of \<open>openai.chat.completions.create\<close>.\<close>

record image_url =
  url :: string
  detail :: string

datatype content_part = TextPart "string option" | ImageUrlPart image_url

record chat_message =
  role_msg :: string
  content_msg :: "content_part list"

record completion_request =
  model :: string
  messages_req :: "chat_message list"
  max_tokens :: nat

text \<open>
  What the call returns, as far as the handler reads it: \<open>choices[0].message.content\<close>.
  A choice may lack its message, and the content may be \<open>null\<close>.
\<close>

datatype completion_message = CompletionMessage (content_of: "string option")

datatype choice = Choice (message_of: "completion_message option")

datatype completion = Completion (choices: "choice list")

text \<open>
  A thrown value: an \<open>Error\<close> object with its message (\<open>error instanceof Error\<close>), or
  anything else.
\<close>

datatype thrown = Error (message: string) | NonError

text \<open>
  Reading a property of \<open>undefined\<close> throws a \<open>TypeError\<close>, which is an \<open>Error\<close>; the
  message is the one of V8.
\<close>

definition typeError :: "string \<Rightarrow> thrown" where
  "typeError p =
     Error (''Cannot read properties of undefined (reading '' @ [CHR 0x27] @ p @ [CHR 0x27] @ '')'')"

subsection \<open>The handler\<close>

definition json_response :: "json_body \<Rightarrow> nat \<Rightarrow> http_response" where
  "json_response b s = \<lparr>status = s, body = b\<rparr>"

text \<open>The request forwarded upstream (lines 30 to 51).\<close>

definition completionRequest :: "string option \<Rightarrow> string \<Rightarrow> completion_request" where
  "completionRequest q img =
     \<lparr>model = ''gpt-4o-mini'',
      messages_req =
        [\<lparr>role_msg = ''user'',
          content_msg =
            [TextPart q,
             ImageUrlPart \<lparr>url = ''data:image/jpeg;base64,'' @ img, detail = ''auto''\<rparr>]\<rparr>],
      max_tokens = 300\<rparr>"

text \<open>\<open>completion.choices[0].message.content\<close> (line 54).\<close>

definition firstContent :: "completion \<Rightarrow> thrown + string option" where
  "firstContent c =
     (case choices c of
        [] \<Rightarrow> Inl (typeError ''message'')
      | ch # _ \<Rightarrow>
          (case message_of ch of
             None \<Rightarrow> Inl (typeError ''content'')
           | Some m \<Rightarrow> Inr (content_of m)))"

text \<open>
  Lines 54 to 60: the result, or the throw when the content is falsy (\<open>null\<close> or the
  empty string).
\<close>

definition extractResult :: "completion \<Rightarrow> thrown + http_response" where
  "extractResult c =
     (case firstContent c of
        Inl e \<Rightarrow> Inl e
      | Inr None \<Rightarrow> Inl (Error ''No response content from OpenAI'')
      | Inr (Some result) \<Rightarrow>
          if \<not> truthy result then Inl (Error ''No response content from OpenAI'')
          else Inr (json_response (ResultBody result) 200))"

text \<open>
  The \<open>try\<close> block (lines 12 to 60). \<open>byteLength\<close> is \<open>Buffer.from(s, 'base64').length\<close>,
  the runtime's base64 decoder; \<open>create\<close> is the upstream call, which returns a completion
  or throws; \<open>reqJson\<close> is \<open>await req.json()\<close>, which throws on a body that is not JSON.
  The second component lists the requests sent upstream, in order.
  \<open>!imageBase64\<close> holds for a missing field and for the empty string.
\<close>

definition tryBlock ::
  "(string \<Rightarrow> nat) \<Rightarrow> (completion_request \<Rightarrow> thrown + completion) \<Rightarrow>
   thrown + vision_request \<Rightarrow> (thrown + http_response) \<times> completion_request list" where
  "tryBlock byteLength create reqJson =
     (case reqJson of
        Inl e \<Rightarrow> (Inl e, [])
      | Inr b \<Rightarrow>
          (case imageBase64 b of
             None \<Rightarrow> (Inr (json_response (ErrorBody ''Image data not provided'') 400), [])
           | Some img \<Rightarrow>
               if \<not> truthy img
               then (Inr (json_response (ErrorBody ''Image data not provided'') 400), [])
               else if byteLength img > 20 * 1024 * 1024
               then (Inr (json_response (ErrorBody ''Image size exceeds 20MB limit'') 400), [])
               else
                 (case create (completionRequest (question b) img) of
                    Inl e \<Rightarrow> (Inl e, [completionRequest (question b) img])
                  | Inr c \<Rightarrow> (extractResult c, [completionRequest (question b) img]))))"

text \<open>The \<open>catch\<close> block (lines 61 to 94).\<close>

fun catchBlock :: "thrown \<Rightarrow> http_response" where
  "catchBlock (Error m) =
     (if includes_str m ''maximum context length''
      then json_response (ErrorBody ''Image is too large or complex to process'') 400
      else if includes_str m ''invalid_api_key''
      then json_response (ErrorBody ''Invalid API key'') 401
      else if includes_str m ''rate_limit_exceeded''
      then json_response (ErrorBody ''Rate limit exceeded'') 429
      else json_response (ErrorBody m) 500)"
| "catchBlock NonError = json_response (ErrorBody ''Failed to analyze the image'') 500"

definition POST ::
  "(string \<Rightarrow> nat) \<Rightarrow> (completion_request \<Rightarrow> thrown + completion) \<Rightarrow>
   thrown + vision_request \<Rightarrow> http_response \<times> completion_request list" where
  "POST byteLength create reqJson =
     (case tryBlock byteLength create reqJson of
        (Inl e, sent) \<Rightarrow> (catchBlock e, sent)
      | (Inr r, sent) \<Rightarrow> (r, sent))"

text \<open>
  The decoded length of a string of base64 digits without padding: three bytes for every
  four digits. It stands for the runtime's decoder where a concrete one is needed.
\<close>

definition digitsByteLength :: "string \<Rightarrow> nat" where
  "digitsByteLength s = 3 * length s div 4"

section \<open>The client: \<open>app/components/chat.tsx\<close>\<close>

subsection \<open>Data\<close>

text \<open>A \<open>File\<close>, as far as the component reads it.\<close>

record image_file =
  name_file :: string
  size_file :: nat
  type_file :: string

datatype role = user | assistant

text \<open>
  \<open>MessageProps\<close>. The text is \<open>None\<close> when it is \<open>undefined\<close>, which \<open>data.result\<close> is
  for a body without that field; \<open>imageUrl\<close> is optional.
\<close>

record message_props =
  role :: role
  text_msg :: "string option"
  imageUrl :: "string option"

text \<open>
  The six state variables of \<open>Chat\<close>. The preview is \<open>None\<close> when it is \<open>null\<close>, which
  \<open>reader.result\<close> is after a failed read.
\<close>

record chat_state =
  userInput :: string
  messages :: "message_props list"
  isLoading :: bool
  selectedImage :: "image_file option"
  imagePreview :: "string option"
  error :: string

definition initialState :: chat_state where
  "initialState =
     \<lparr>userInput = [], messages = [], isLoading = False, selectedImage = None,
      imagePreview = Some [], error = []\<rparr>"

subsection \<open>Selecting an image\<close>

text \<open>
  \<open>handleImageSelect\<close> (lines 66 to 91), on \<open>e.target.files?.[0]\<close>. The second component is
  the file whose preview read was started, if one was.
\<close>

definition handleImageSelect :: "image_file option \<Rightarrow> chat_state \<Rightarrow> chat_state \<times> image_file option" where
  "handleImageSelect f st =
     (case f of
        None \<Rightarrow> (st, None)
      | Some file \<Rightarrow>
          if size_file file > 20 * 1024 * 1024
          then (st\<lparr>error := ''Image size must be less than 20MB''\<rparr>, None)
          else if type_file file \<notin> set [''image/jpeg'', ''image/png'', ''image/webp'', ''image/gif'']
          then (st\<lparr>error := ''Only JPEG, PNG, WEBP, and non-animated GIF files are supported''\<rparr>,
                None)
          else ((st\<lparr>selectedImage := Some file\<rparr>)\<lparr>error := []\<rparr>, Some file))"

text \<open>The preview reader's \<open>onloadend\<close> (lines 86 to 88), on \<open>reader.result\<close>.\<close>

definition previewLoadEnd :: "string option \<Rightarrow> chat_state \<Rightarrow> chat_state" where
  "previewLoadEnd result st = st\<lparr>imagePreview := result\<rparr>"

text \<open>The Clear button (lines 209 to 212) and the \<open>disabled\<close> attributes of the form.\<close>

definition clearImage :: "chat_state \<Rightarrow> chat_state" where
  "clearImage st = (st\<lparr>selectedImage := None\<rparr>)\<lparr>imagePreview := Some []\<rparr>"

definition inputDisabled :: "chat_state \<Rightarrow> bool" where
  "inputDisabled st = isLoading st"

definition submitDisabled :: "chat_state \<Rightarrow> bool" where
  "submitDisabled st =
     (isLoading st \<or> (\<not> truthy (trim (userInput st)) \<and> selectedImage st = None))"

subsection \<open>Submitting\<close>

text \<open>
  The reader that \<open>handleSubmit\<close> starts: the file it reads, and the values of \<open>userInput\<close>
  and \<open>imagePreview\<close> that its callback closes over, which are those of the render in
  which the form was submitted.
\<close>

record submit_reader =
  file_read :: image_file
  input_seen :: string
  preview_seen :: "string option"

text \<open>
  The \<open>try\<close> block of \<open>handleSubmit\<close> (lines 101 to 159). \<open>st0\<close> is the state of the
  render, \<open>st\<close> the state being updated. The block installs the two callbacks and
  returns; none of its statements throws, the \<open>throw\<close> statements being inside the
  callbacks, which run after \<open>handleSubmit\<close> has returned.
\<close>

definition submitTry :: "chat_state \<Rightarrow> chat_state \<Rightarrow> thrown + chat_state \<times> submit_reader option" where
  "submitTry st0 st =
     (let reader =
            (case selectedImage st0 of
               None \<Rightarrow> None
             | Some f \<Rightarrow>
                 Some \<lparr>file_read = f, input_seen = userInput st0,
                       preview_seen = imagePreview st0\<rparr>);
          st1 =
            (if truthy (trim (userInput st0))
             then st\<lparr>messages :=
                        messages st @ [\<lparr>role = user, text_msg = Some (userInput st0), imageUrl = None\<rparr>]\<rparr>
             else st)
      in Inr (st1\<lparr>userInput := []\<rparr>, reader))"

text \<open>
  \<open>handleSubmit\<close> (lines 93 to 167). It has no \<open>await\<close> of its own, so it runs to its
  end, through \<open>finally\<close>, before any callback. \<open>scrollToBottom\<close> changes no state.
\<close>

definition handleSubmit :: "chat_state \<Rightarrow> chat_state \<times> submit_reader option" where
  "handleSubmit st0 =
     (if \<not> truthy (trim (userInput st0)) \<and> selectedImage st0 = None then (st0, None)
      else
        (let st1 = (st0\<lparr>isLoading := True\<rparr>)\<lparr>error := []\<rparr>
         in case submitTry st0 st1 of
              Inr (st2, reader) \<Rightarrow> (st2\<lparr>isLoading := False\<rparr>, reader)
            | Inl e \<Rightarrow>
                ((st1\<lparr>error := (case e of Error m \<Rightarrow> m | NonError \<Rightarrow> ''An error occurred'')\<rparr>)
                   \<lparr>isLoading := False\<rparr>,
                 None)))"

text \<open>\<open>reader.result?.toString().split(',')[1]\<close> (line 106).\<close>

definition base64Image :: "string option \<Rightarrow> string option" where
  "base64Image result =
     (case result of
        None \<Rightarrow> None
      | Some s \<Rightarrow> at_index (split_str s CHR '','') 1)"

text \<open>
  The reader's \<open>onloadend\<close>, an \<open>async\<close> function (lines 105 to 145), up to the \<open>fetch\<close>:
  on \<open>reader.result\<close> it either throws, which rejects the promise that the callback
  returns, or appends the user message and sends the request.
\<close>

definition onloadendRequest ::
  "submit_reader \<Rightarrow> string option \<Rightarrow> chat_state \<Rightarrow> chat_state \<times> (thrown + vision_request)" where
  "onloadendRequest r result st =
     (if \<not> truthyOpt (base64Image result) then (st, Inl (Error ''Failed to process image''))
      else
        (st\<lparr>messages :=
              messages st @
                [\<lparr>role = user,
                  text_msg = Some (orElse (input_seen r) ''What is in this image?''),
                  imageUrl = preview_seen r\<rparr>]\<rparr>,
         Inr \<lparr>imageBase64 = base64Image result,
              question = Some (orElse (input_seen r) ''What is in this image?'')\<rparr>))"

text \<open>\<open>response.ok\<close>, and the two fields the client reads from the body.\<close>

definition ok :: "http_response \<Rightarrow> bool" where
  "ok r = (200 \<le> status r \<and> status r \<le> 299)"

fun error_field :: "json_body \<Rightarrow> string option" where
  "error_field (ErrorBody e) = Some e"
| "error_field (ResultBody _) = None"

fun result_field :: "json_body \<Rightarrow> string option" where
  "result_field (ResultBody r) = Some r"
| "result_field (ErrorBody _) = None"

text \<open>
  The rest of \<open>onloadend\<close> (lines 130 to 144), once \<open>fetch\<close> has settled with a response
  or a rejection. The second component is the value the callback's promise is rejected
  with, if it is; nothing awaits or catches that promise.
\<close>

definition onloadendResponse ::
  "thrown + http_response \<Rightarrow> chat_state \<Rightarrow> chat_state \<times> thrown option" where
  "onloadendResponse fetched st =
     (case fetched of
        Inl e \<Rightarrow> (st, Some e)
      | Inr response \<Rightarrow>
          if \<not> ok response
          then (st, Some (Error (orElseOpt (error_field (body response)) ''Failed to analyze image'')))
          else
            (((st\<lparr>messages :=
                    messages st @
                      [\<lparr>role = assistant, text_msg = result_field (body response),
                        imageUrl = None\<rparr>]\<rparr>)
                \<lparr>selectedImage := None\<rparr>)
               \<lparr>imagePreview := Some []\<rparr>,
             None))"

text \<open>The whole callback, with no other event between its two parts.\<close>

definition onloadend ::
  "(vision_request \<Rightarrow> thrown + http_response) \<Rightarrow> submit_reader \<Rightarrow> string option \<Rightarrow>
   chat_state \<Rightarrow> chat_state \<times> thrown option" where
  "onloadend fetch r result st =
     (case onloadendRequest r result st of
        (st1, Inl e) \<Rightarrow> (st1, Some e)
      | (st1, Inr req) \<Rightarrow> onloadendResponse (fetch req) st1)"

text \<open>The reader's \<open>onerror\<close> (lines 147 to 149): it throws, and changes no state.\<close>

definition onerror :: "chat_state \<Rightarrow> chat_state \<times> thrown option" where
  "onerror st = (st, Some (Error ''Failed to read image file''))"

text \<open>\<open>fetch\<close> against the proxy: the request body is parsed back as it was written.\<close>

definition fetchVision ::
  "(string \<Rightarrow> nat) \<Rightarrow> (completion_request \<Rightarrow> thrown + completion) \<Rightarrow>
   vision_request \<Rightarrow> thrown + http_response" where
  "fetchVision byteLength create req = Inr (fst (POST byteLength create (Inr req)))"

section \<open>Concrete inputs\<close>

text \<open>
  The completions the handler finds no content in: no choice at all, a first choice
  without a message, a first message whose content is \<open>null\<close> or the empty string.
\<close>

fun contentMissing :: "completion \<Rightarrow> bool" where
  "contentMissing (Completion []) = True"
| "contentMissing (Completion (Choice None # _)) = True"
| "contentMissing (Completion (Choice (Some (CompletionMessage None)) # _)) = True"
| "contentMissing (Completion (Choice (Some (CompletionMessage (Some s))) # _)) = (s = [])"

text \<open>Two upstream calls: one that always throws, one that always returns.\<close>

definition alwaysThrows :: "thrown \<Rightarrow> completion_request \<Rightarrow> thrown + completion" where
  "alwaysThrows e req = Inl e"

definition alwaysReturns :: "completion \<Rightarrow> completion_request \<Rightarrow> thrown + completion" where
  "alwaysReturns c req = Inr c"

text \<open>
  A small PNG file, the data URL a reader gives for it, and a state in which it is
  selected and previewed while the text field holds \<open>input\<close>.
\<close>

definition pngFile :: image_file where
  "pngFile = \<lparr>name_file = ''cat.png'', size_file = 3, type_file = ''image/png''\<rparr>"

definition pngDataUrl :: string where
  "pngDataUrl = ''data:image/png;base64,QUJD''"

definition attached :: "string \<Rightarrow> chat_state" where
  "attached input =
     \<lparr>userInput = input, messages = [], isLoading = False, selectedImage = Some pngFile,
      imagePreview = Some pngDataUrl, error = []\<rparr>"

text \<open>
  A submission followed by the reader's \<open>onloadend\<close>, with no other event in between.
\<close>

definition submitThenLoad ::
  "(vision_request \<Rightarrow> thrown + http_response) \<Rightarrow> string option \<Rightarrow> chat_state \<Rightarrow>
   chat_state \<times> thrown option" where
  "submitThenLoad fetch result st =
     (case handleSubmit st of
        (st1, None) \<Rightarrow> (st1, None)
      | (st1, Some r) \<Rightarrow> onloadend fetch r result st1)"

text \<open>
  An empty PNG file, which \<open>handleImageSelect\<close> accepts, the data URL a reader gives for
  it, and the state after it was selected and previewed with a question typed in.
\<close>

definition emptyPngFile :: image_file where
  "emptyPngFile = \<lparr>name_file = ''empty.png'', size_file = 0, type_file = ''image/png''\<rparr>"

definition emptyPngDataUrl :: string where
  "emptyPngDataUrl = ''data:image/png;base64,''"

definition emptyAttached :: chat_state where
  "emptyAttached =
     previewLoadEnd (Some emptyPngDataUrl)
       (fst (handleImageSelect (Some emptyPngFile) (initialState\<lparr>userInput := ''What breed?''\<rparr>)))"

section \<open>Properties of the proxy\<close>

text \<open>
  Claim C1. When the upstream completion's first choice has non-empty content \<open>X\<close>, the
  handler answers 200 with the body \<open>{result: X}\<close>; and the client, on that response,
  appends one assistant message with the text \<open>X\<close> and clears the selected image and the
  preview.
\<close>

theorem proxy_success_client_appends_answer:
  assumes "truthy img" and "byteLength img \<le> 20 * 1024 * 1024"
    and "create (completionRequest q img) =
           Inr (Completion (Choice (Some (CompletionMessage (Some X))) # cs))"
    and "truthy X"
  shows "fst (POST byteLength create (Inr \<lparr>imageBase64 = Some img, question = q\<rparr>)) =
           \<lparr>status = 200, body = ResultBody X\<rparr>
         \<and> onloadendResponse
             (fetchVision byteLength create \<lparr>imageBase64 = Some img, question = q\<rparr>) st =
           (st\<lparr>messages := messages st @ [\<lparr>role = assistant, text_msg = Some X, imageUrl = None\<rparr>],
               selectedImage := None, imagePreview := Some []\<rparr>, None)"
  using assms
  by (simp add: POST_def tryBlock_def extractResult_def firstContent_def json_response_def
      fetchVision_def onloadendResponse_def ok_def)

theorem proxy_success_client_appends_answer_witness:
  "truthy ''QUJD'' \<and> digitsByteLength ''QUJD'' \<le> 20 * 1024 * 1024
   \<and> alwaysReturns (Completion [Choice (Some (CompletionMessage (Some ''A cat'')))])
        (completionRequest (Some ''What is it?'') ''QUJD'') =
      Inr (Completion (Choice (Some (CompletionMessage (Some ''A cat''))) # []))
   \<and> truthy ''A cat''
   \<and> fst (POST digitsByteLength
        (alwaysReturns (Completion [Choice (Some (CompletionMessage (Some ''A cat'')))]))
        (Inr \<lparr>imageBase64 = Some ''QUJD'', question = Some ''What is it?''\<rparr>)) =
      \<lparr>status = 200, body = ResultBody ''A cat''\<rparr>
   \<and> onloadendResponse
        (fetchVision digitsByteLength
           (alwaysReturns (Completion [Choice (Some (CompletionMessage (Some ''A cat'')))]))
           \<lparr>imageBase64 = Some ''QUJD'', question = Some ''What is it?''\<rparr>) initialState =
      (initialState\<lparr>messages := messages initialState @
                       [\<lparr>role = assistant, text_msg = Some ''A cat'', imageUrl = None\<rparr>],
                    selectedImage := None, imagePreview := Some []\<rparr>, None)"
  using proxy_success_client_appends_answer
    [where img = "''QUJD''" and byteLength = digitsByteLength
       and create = "alwaysReturns (Completion [Choice (Some (CompletionMessage (Some ''A cat'')))])"
       and q = "Some ''What is it?''" and X = "''A cat''" and cs = "[]" and st = initialState]
  by (simp add: truthy_def digitsByteLength_def alwaysReturns_def)

text \<open>
  Claim C2. A request without \<open>imageBase64\<close> (or with an empty one) is answered 400
  \<open>Image data not provided\<close>; a request whose image decodes to more than 20 MiB is answered
  400 with the size-limit error; in both cases nothing is sent upstream. The empty string
  is caught by the first check, so the second case has a non-empty image.
\<close>

theorem proxy_rejects_missing_or_oversized:
  "(\<not> truthyOpt (imageBase64 b) \<longrightarrow>
      POST byteLength create (Inr b) =
        (\<lparr>status = 400, body = ErrorBody ''Image data not provided''\<rparr>, []))
   \<and> (imageBase64 b = Some img \<and> truthy img \<and> byteLength img > 20 * 1024 * 1024 \<longrightarrow>
      POST byteLength create (Inr b) =
        (\<lparr>status = 400, body = ErrorBody ''Image size exceeds 20MB limit''\<rparr>, []))"
  by (cases "imageBase64 b")
     (auto simp add: POST_def tryBlock_def json_response_def)

theorem proxy_rejects_missing_or_oversized_witness:
  "\<not> truthyOpt (imageBase64 \<lparr>imageBase64 = None, question = Some ''What is it?''\<rparr>)
   \<and> POST digitsByteLength (alwaysReturns (Completion []))
        (Inr \<lparr>imageBase64 = None, question = Some ''What is it?''\<rparr>) =
      (\<lparr>status = 400, body = ErrorBody ''Image data not provided''\<rparr>, [])
   \<and> truthy (replicate 27962028 CHR ''A'')
   \<and> digitsByteLength (replicate 27962028 CHR ''A'') > 20 * 1024 * 1024
   \<and> POST digitsByteLength (alwaysReturns (Completion []))
        (Inr \<lparr>imageBase64 = Some (replicate 27962028 CHR ''A''), question = Some ''What is it?''\<rparr>) =
      (\<lparr>status = 400, body = ErrorBody ''Image size exceeds 20MB limit''\<rparr>, [])"
  using proxy_rejects_missing_or_oversized
    [where b = "\<lparr>imageBase64 = None, question = Some ''What is it?''\<rparr>"
       and byteLength = digitsByteLength and create = "alwaysReturns (Completion [])"]
    proxy_rejects_missing_or_oversized
    [where b = "\<lparr>imageBase64 = Some (replicate 27962028 CHR ''A''), question = Some ''What is it?''\<rparr>"
       and byteLength = digitsByteLength and create = "alwaysReturns (Completion [])"]
  by (simp add: truthy_def digitsByteLength_def)

text \<open>
  Claim C3, as stated: every upstream error whose message contains
  \<open>rate_limit_exceeded\<close> is answered 429. It fails for a message that also contains
  \<open>maximum context length\<close>, which the handler tests first: the answer is 400.
\<close>

theorem rate_limit_substring_counterexample:
  "includes_str ''rate_limit_exceeded: over the maximum context length'' ''rate_limit_exceeded''
   \<and> fst (POST digitsByteLength
            (alwaysThrows (Error ''rate_limit_exceeded: over the maximum context length''))
            (Inr \<lparr>imageBase64 = Some ''QUJD'', question = Some ''What is it?''\<rparr>)) =
       \<lparr>status = 400, body = ErrorBody ''Image is too large or complex to process''\<rparr>"
  by (simp add: POST_def tryBlock_def truthy_def digitsByteLength_def alwaysThrows_def
      json_response_def)

text \<open>
  Claim C3, amended. An \<open>Error\<close> thrown by the upstream call is mapped by the first
  substring of its message that matches, in the order \<open>maximum context length\<close> (400),
  \<open>invalid_api_key\<close> (401), \<open>rate_limit_exceeded\<close> (429 with a rate-limit error string);
  an \<open>Error\<close> that matches none is answered 500 with its own message, and a thrown value
  that is not an \<open>Error\<close> is answered 500 with the generic message.
\<close>

theorem proxy_maps_upstream_error_first_match:
  assumes "truthy img" and "byteLength img \<le> 20 * 1024 * 1024"
  shows "(create (completionRequest q img) = Inl (Error m) \<longrightarrow>
            (includes_str m ''maximum context length'' \<longrightarrow>
               fst (POST byteLength create (Inr \<lparr>imageBase64 = Some img, question = q\<rparr>)) =
                 \<lparr>status = 400, body = ErrorBody ''Image is too large or complex to process''\<rparr>)
            \<and> (\<not> includes_str m ''maximum context length'' \<and> includes_str m ''invalid_api_key'' \<longrightarrow>
               fst (POST byteLength create (Inr \<lparr>imageBase64 = Some img, question = q\<rparr>)) =
                 \<lparr>status = 401, body = ErrorBody ''Invalid API key''\<rparr>)
            \<and> (\<not> includes_str m ''maximum context length'' \<and> \<not> includes_str m ''invalid_api_key''
                 \<and> includes_str m ''rate_limit_exceeded'' \<longrightarrow>
               fst (POST byteLength create (Inr \<lparr>imageBase64 = Some img, question = q\<rparr>)) =
                 \<lparr>status = 429, body = ErrorBody ''Rate limit exceeded''\<rparr>)
            \<and> (\<not> includes_str m ''maximum context length'' \<and> \<not> includes_str m ''invalid_api_key''
                 \<and> \<not> includes_str m ''rate_limit_exceeded'' \<longrightarrow>
               fst (POST byteLength create (Inr \<lparr>imageBase64 = Some img, question = q\<rparr>)) =
                 \<lparr>status = 500, body = ErrorBody m\<rparr>))
         \<and> (create (completionRequest q img) = Inl NonError \<longrightarrow>
               fst (POST byteLength create (Inr \<lparr>imageBase64 = Some img, question = q\<rparr>)) =
                 \<lparr>status = 500, body = ErrorBody ''Failed to analyze the image''\<rparr>)"
  using assms
  by (simp add: POST_def tryBlock_def json_response_def)

theorem proxy_maps_upstream_error_first_match_witness:
  "truthy ''QUJD'' \<and> digitsByteLength ''QUJD'' \<le> 20 * 1024 * 1024
   \<and> alwaysThrows (Error ''429 rate_limit_exceeded'') (completionRequest (Some ''What is it?'') ''QUJD'') =
        Inl (Error ''429 rate_limit_exceeded'')
   \<and> fst (POST digitsByteLength (alwaysThrows (Error ''429 rate_limit_exceeded''))
        (Inr \<lparr>imageBase64 = Some ''QUJD'', question = Some ''What is it?''\<rparr>)) =
      \<lparr>status = 429, body = ErrorBody ''Rate limit exceeded''\<rparr>"
  using proxy_maps_upstream_error_first_match
    [where img = "''QUJD''" and byteLength = digitsByteLength
       and create = "alwaysThrows (Error ''429 rate_limit_exceeded'')"
       and q = "Some ''What is it?''" and m = "''429 rate_limit_exceeded''"]
  by (simp add: truthy_def digitsByteLength_def alwaysThrows_def)

text \<open>
  Claim C6. Every request that passes the two checks is forwarded as one request with one
  user message, whose image URL is \<open>data:image/jpeg;base64,\<close> followed by the received
  \<open>imageBase64\<close>, with the detail \<open>auto\<close> and \<open>max_tokens\<close> 300. The request body carries
  no MIME type, so the label does not depend on the type of the selected file.
\<close>

theorem proxy_forwards_jpeg_data_url:
  assumes "truthy img" and "byteLength img \<le> 20 * 1024 * 1024"
  shows "snd (POST byteLength create (Inr \<lparr>imageBase64 = Some img, question = q\<rparr>)) =
           [\<lparr>model = ''gpt-4o-mini'',
             messages_req =
               [\<lparr>role_msg = ''user'',
                 content_msg =
                   [TextPart q,
                    ImageUrlPart \<lparr>url = ''data:image/jpeg;base64,'' @ img, detail = ''auto''\<rparr>]\<rparr>],
             max_tokens = 300\<rparr>]"
  using assms
  by (simp add: POST_def tryBlock_def completionRequest_def split: sum.splits prod.splits)

theorem proxy_forwards_jpeg_data_url_witness:
  "truthy ''QUJD'' \<and> digitsByteLength ''QUJD'' \<le> 20 * 1024 * 1024
   \<and> snd (POST digitsByteLength (alwaysReturns (Completion []))
        (Inr \<lparr>imageBase64 = Some ''QUJD'', question = Some ''What is it?''\<rparr>)) =
      [\<lparr>model = ''gpt-4o-mini'',
        messages_req =
          [\<lparr>role_msg = ''user'',
            content_msg =
              [TextPart (Some ''What is it?''),
               ImageUrlPart \<lparr>url = ''data:image/jpeg;base64,QUJD'', detail = ''auto''\<rparr>]\<rparr>],
        max_tokens = 300\<rparr>]"
  using proxy_forwards_jpeg_data_url
    [where img = "''QUJD''" and byteLength = digitsByteLength
       and create = "alwaysReturns (Completion [])" and q = "Some ''What is it?''"]
  by (simp add: truthy_def digitsByteLength_def)

text \<open>
  The same from the client's side: whatever type the data URL of the selected file names,
  only the payload after the comma is sent, and the proxy forwards it labelled as JPEG.
\<close>

lemma split_str_no_sep: "sep \<notin> set s \<Longrightarrow> split_str s sep = [s]"
  by (induction s) auto

lemma split_str_first_sep:
  "sep \<notin> set a \<Longrightarrow> split_str (a @ sep # b) sep = a # split_str b sep"
  by (induction a) auto

lemma base64Image_data_url:
  assumes "CHR '','' \<notin> set ty" and "CHR '','' \<notin> set payload"
  shows "base64Image (Some (''data:'' @ ty @ '';base64,'' @ payload)) = Some payload"
proof -
  have "CHR '','' \<notin> set (''data:'' @ ty @ '';base64'')"
    using assms(1) by simp
  then have "split_str ((''data:'' @ ty @ '';base64'') @ CHR '','' # payload) CHR '','' =
               (''data:'' @ ty @ '';base64'') # split_str payload CHR '',''"
    by (rule split_str_first_sep)
  then have "split_str (''data:'' @ ty @ '';base64,'' @ payload) CHR '','' =
               [''data:'' @ ty @ '';base64'', payload]"
    using split_str_no_sep [OF assms(2)] by simp
  then show ?thesis
    by (simp add: base64Image_def at_index_def)
qed

lemma selected_type_not_forwarded:
  assumes "CHR '','' \<notin> set ty" and "CHR '','' \<notin> set payload" and "truthy payload"
    and "byteLength payload \<le> 20 * 1024 * 1024"
    and "onloadendRequest r (Some (''data:'' @ ty @ '';base64,'' @ payload)) st = (st1, sent)"
  shows "\<exists>req. sent = Inr req
           \<and> snd (POST byteLength create (Inr req)) =
               [completionRequest (Some (orElse (input_seen r) ''What is in this image?'')) payload]"
  using assms(3-5) base64Image_data_url [OF assms(1,2)]
  by (auto simp add: onloadendRequest_def POST_def tryBlock_def split: sum.splits)

text \<open>
  The two errors that an upstream answer without content raises match none of the three
  substrings of the \<open>catch\<close> block.
\<close>

lemma no_content_message_unmatched:
  "catchBlock (Error ''No response content from OpenAI'') =
     \<lparr>status = 500, body = ErrorBody ''No response content from OpenAI''\<rparr>"
  by (simp add: json_response_def)

lemma typeError_unmatched:
  "p = ''message'' \<or> p = ''content'' \<Longrightarrow>
   status (catchBlock (typeError p)) = 500 \<and> result_field (body (catchBlock (typeError p))) = None"
  by (auto simp add: typeError_def json_response_def)

text \<open>
  Claim C7. When the first choice's message content is empty or absent (an empty list of
  choices included), the handler answers 500 with an error body, never 200.
\<close>

theorem proxy_empty_content_is_500:
  assumes "truthy img" and "byteLength img \<le> 20 * 1024 * 1024"
    and "create (completionRequest q img) = Inr c"
    and "contentMissing c"
  shows "status (fst (POST byteLength create (Inr \<lparr>imageBase64 = Some img, question = q\<rparr>))) = 500
         \<and> result_field (body (fst (POST byteLength create (Inr \<lparr>imageBase64 = Some img, question = q\<rparr>)))) = None
         \<and> status (fst (POST byteLength create (Inr \<lparr>imageBase64 = Some img, question = q\<rparr>))) \<noteq> 200"
proof -
  have "\<exists>e. extractResult c = Inl e \<and> status (catchBlock e) = 500
          \<and> result_field (body (catchBlock e)) = None"
    using assms(4)
  proof (induction c rule: contentMissing.induct)
    case 1
    then show ?case
      using typeError_unmatched [of "''message''"]
      by (simp add: extractResult_def firstContent_def)
  next
    case (2 uu)
    then show ?case
      using typeError_unmatched [of "''content''"]
      by (simp add: extractResult_def firstContent_def)
  next
    case (3 uv)
    then show ?case
      using no_content_message_unmatched
      by (simp add: extractResult_def firstContent_def)
  next
    case (4 s uw)
    then show ?case
      using no_content_message_unmatched
      by (simp add: extractResult_def firstContent_def truthy_def)
  qed
  then obtain e where e: "extractResult c = Inl e" "status (catchBlock e) = 500"
      "result_field (body (catchBlock e)) = None"
    by blast
  have "fst (POST byteLength create (Inr \<lparr>imageBase64 = Some img, question = q\<rparr>)) = catchBlock e"
    using assms(1-3) e(1) by (simp add: POST_def tryBlock_def)
  then show ?thesis
    using e(2,3) by simp
qed

theorem proxy_empty_content_is_500_witness:
  "truthy ''QUJD'' \<and> digitsByteLength ''QUJD'' \<le> 20 * 1024 * 1024
   \<and> alwaysReturns (Completion []) (completionRequest (Some ''What is it?'') ''QUJD'') =
        Inr (Completion [])
   \<and> contentMissing (Completion [])
   \<and> status (fst (POST digitsByteLength (alwaysReturns (Completion []))
        (Inr \<lparr>imageBase64 = Some ''QUJD'', question = Some ''What is it?''\<rparr>))) = 500"
  using proxy_empty_content_is_500
    [where img = "''QUJD''" and byteLength = digitsByteLength
       and create = "alwaysReturns (Completion [])"
       and q = "Some ''What is it?''" and c = "Completion []"]
  by (simp add: truthy_def digitsByteLength_def alwaysReturns_def)

section \<open>Properties of the client\<close>

text \<open>
  Claim C9. Selecting a file larger than 20 MiB, or of a type other than JPEG, PNG, WEBP
  and GIF, sets a non-empty error and changes nothing else: the selected image and the
  preview stay as they were, and no preview read is started.
\<close>

theorem select_rejects_oversized_or_unsupported:
  assumes "size_file f > 20 * 1024 * 1024
           \<or> type_file f \<notin> {''image/jpeg'', ''image/png'', ''image/webp'', ''image/gif''}"
  shows "truthy (error (fst (handleImageSelect (Some f) st)))
         \<and> selectedImage (fst (handleImageSelect (Some f) st)) = selectedImage st
         \<and> imagePreview (fst (handleImageSelect (Some f) st)) = imagePreview st
         \<and> snd (handleImageSelect (Some f) st) = None
         \<and> fst (handleImageSelect (Some f) st) =
             st\<lparr>error := error (fst (handleImageSelect (Some f) st))\<rparr>"
  using assms
  by (auto simp add: handleImageSelect_def truthy_def)

theorem select_rejects_oversized_or_unsupported_witness:
  "(size_file \<lparr>name_file = ''a.bmp'', size_file = 10, type_file = ''image/bmp''\<rparr> > 20 * 1024 * 1024
    \<or> type_file \<lparr>name_file = ''a.bmp'', size_file = 10, type_file = ''image/bmp''\<rparr>
        \<notin> {''image/jpeg'', ''image/png'', ''image/webp'', ''image/gif''})
   \<and> error (fst (handleImageSelect
        (Some \<lparr>name_file = ''a.bmp'', size_file = 10, type_file = ''image/bmp''\<rparr>) (attached ''hi''))) =
       ''Only JPEG, PNG, WEBP, and non-animated GIF files are supported''
   \<and> selectedImage (fst (handleImageSelect
        (Some \<lparr>name_file = ''a.bmp'', size_file = 10, type_file = ''image/bmp''\<rparr>) (attached ''hi''))) =
       Some pngFile
   \<and> imagePreview (fst (handleImageSelect
        (Some \<lparr>name_file = ''a.bmp'', size_file = 10, type_file = ''image/bmp''\<rparr>) (attached ''hi''))) =
       Some pngDataUrl"
  using select_rejects_oversized_or_unsupported
    [where f = "\<lparr>name_file = ''a.bmp'', size_file = 10, type_file = ''image/bmp''\<rparr>"
       and st = "attached ''hi''"]
  by (simp add: handleImageSelect_def attached_def)

lemma truthy_trim: "truthy (trim s) \<Longrightarrow> truthy s"
  by (auto simp add: truthy_def trim_def)

text \<open>
  Claim C10, as stated: every submission with non-blank text and an attachment appends
  two user messages. It fails when the read gives no payload: for an empty file, whose
  data URL ends at the comma, and for a failed read, the callback throws at its guard
  before it appends, and the text-only message is the only one.
\<close>

theorem empty_file_single_user_message_counterexample:
  "truthy (trim (userInput emptyAttached))
   \<and> selectedImage emptyAttached = Some emptyPngFile
   \<and> messages emptyAttached = []
   \<and> submitThenLoad (fetchVision digitsByteLength (alwaysReturns (Completion [])))
        (Some emptyPngDataUrl) emptyAttached =
      (\<lparr>userInput = [],
        messages = [\<lparr>role = user, text_msg = Some ''What breed?'', imageUrl = None\<rparr>],
        isLoading = False, selectedImage = Some emptyPngFile,
        imagePreview = Some emptyPngDataUrl, error = []\<rparr>,
       Some (Error ''Failed to process image''))
   \<and> messages (fst (submitThenLoad (fetchVision digitsByteLength (alwaysReturns (Completion [])))
        None emptyAttached)) =
      [\<lparr>role = user, text_msg = Some ''What breed?'', imageUrl = None\<rparr>]"
  by (simp add: emptyAttached_def emptyPngFile_def emptyPngDataUrl_def initialState_def
      previewLoadEnd_def handleImageSelect_def submitThenLoad_def handleSubmit_def submitTry_def
      onloadend_def onloadendRequest_def base64Image_def at_index_def truthy_def trim_def
      isWhiteSpace_def)

text \<open>
  Claim C10, amended. With non-blank text and an attachment, \<open>handleSubmit\<close> appends a
  text-only user message before it returns and starts a reader. When the reader's
  callback fires with a data URL whose payload after the first comma is not empty, it
  appends a second user message with the same text and the preview, after the first.
  When the read gives no such payload, the callback throws before it appends, and the
  transcript stays as \<open>handleSubmit\<close> left it.
\<close>

theorem submit_text_and_image_two_user_messages:
  assumes "truthy (trim (userInput st))" and "selectedImage st = Some f"
  shows "snd (handleSubmit st) =
           Some \<lparr>file_read = f, input_seen = userInput st, preview_seen = imagePreview st\<rparr>
         \<and> messages (fst (handleSubmit st)) =
             messages st @ [\<lparr>role = user, text_msg = Some (userInput st), imageUrl = None\<rparr>]
         \<and> (truthyOpt (base64Image result) \<longrightarrow>
              messages (fst (onloadendRequest
                 \<lparr>file_read = f, input_seen = userInput st, preview_seen = imagePreview st\<rparr>
                 result (fst (handleSubmit st)))) =
                messages st @
                  [\<lparr>role = user, text_msg = Some (userInput st), imageUrl = None\<rparr>,
                   \<lparr>role = user, text_msg = Some (userInput st), imageUrl = imagePreview st\<rparr>])
         \<and> (\<not> truthyOpt (base64Image result) \<longrightarrow>
              onloadendRequest
                 \<lparr>file_read = f, input_seen = userInput st, preview_seen = imagePreview st\<rparr>
                 result (fst (handleSubmit st)) =
                (fst (handleSubmit st), Inl (Error ''Failed to process image'')))"
  using assms truthy_trim [OF assms(1)]
  by (simp add: handleSubmit_def submitTry_def onloadendRequest_def orElse_def)

theorem submit_text_and_image_two_user_messages_witness:
  "truthy (trim (userInput (attached ''What breed?'')))
   \<and> selectedImage (attached ''What breed?'') = Some pngFile
   \<and> truthyOpt (base64Image (Some pngDataUrl))
   \<and> messages (fst (onloadendRequest
        \<lparr>file_read = pngFile, input_seen = ''What breed?'', preview_seen = Some pngDataUrl\<rparr>
        (Some pngDataUrl) (fst (handleSubmit (attached ''What breed?''))))) =
      [\<lparr>role = user, text_msg = Some ''What breed?'', imageUrl = None\<rparr>,
       \<lparr>role = user, text_msg = Some ''What breed?'', imageUrl = Some pngDataUrl\<rparr>]
   \<and> \<not> truthyOpt (base64Image None)
   \<and> messages (fst (onloadendRequest
        \<lparr>file_read = pngFile, input_seen = ''What breed?'', preview_seen = Some pngDataUrl\<rparr>
        None (fst (handleSubmit (attached ''What breed?''))))) =
      [\<lparr>role = user, text_msg = Some ''What breed?'', imageUrl = None\<rparr>]"
  using submit_text_and_image_two_user_messages
    [where st = "attached ''What breed?''" and f = pngFile and result = "Some pngDataUrl"]
    submit_text_and_image_two_user_messages
    [where st = "attached ''What breed?''" and f = pngFile and result = "None"]
  by (simp add: attached_def truthy_def trim_def isWhiteSpace_def base64Image_def pngDataUrl_def
      at_index_def)

text \<open>
  Claim C8 at an input of two spaces with an attachment. The text is blank for
  \<open>handleSubmit\<close>, which tests \<open>userInput.trim()\<close> and appends no text-only message; the
  callback tests \<open>userInput\<close> itself, finds it truthy, and uses the two spaces as the
  message text and as the question instead of \<open>What is in this image?\<close>.
\<close>

theorem whitespace_input_sent_as_question:
  "\<not> truthy (trim ''  '')
   \<and> (case handleSubmit (attached ''  '') of
        (st1, None) \<Rightarrow> False
      | (st1, Some r) \<Rightarrow>
          messages st1 = []
          \<and> onloadendRequest r (Some pngDataUrl) st1 =
              (st1\<lparr>messages := [\<lparr>role = user, text_msg = Some ''  '', imageUrl = Some pngDataUrl\<rparr>]\<rparr>,
               Inr \<lparr>imageBase64 = Some ''QUJD'', question = Some ''  ''\<rparr>))"
  by (simp add: attached_def truthy_def trim_def isWhiteSpace_def base64Image_def pngDataUrl_def
      at_index_def handleSubmit_def submitTry_def onloadendRequest_def orElse_def)

text \<open>With the empty string as input the default is used, for the message and the question.\<close>

lemma empty_input_uses_default_question:
  assumes "userInput st = []" and "selectedImage st = Some f" and "truthyOpt (base64Image result)"
  shows "case handleSubmit st of
           (st1, None) \<Rightarrow> False
         | (st1, Some r) \<Rightarrow>
             messages st1 = messages st
             \<and> onloadendRequest r result st1 =
                 (st1\<lparr>messages := messages st @
                        [\<lparr>role = user, text_msg = Some ''What is in this image?'',
                          imageUrl = imagePreview st\<rparr>]\<rparr>,
                  Inr \<lparr>imageBase64 = base64Image result,
                       question = Some ''What is in this image?''\<rparr>)"
  using assms
  by (simp add: handleSubmit_def submitTry_def onloadendRequest_def orElse_def truthy_def trim_def)

text \<open>
  Claim C4 at a submission whose request the proxy answers with 429, and at one whose
  read gives no result. In both the callback throws after \<open>handleSubmit\<close> has returned, so
  the \<open>catch\<close> of \<open>handleSubmit\<close> does not run: the error state stays empty, and the
  message is only the rejection of a promise that nothing handles. The selected image
  and the preview are kept.
\<close>

theorem failed_request_leaves_error_empty:
  "submitThenLoad (fetchVision digitsByteLength (alwaysThrows (Error ''429 rate_limit_exceeded'')))
     (Some pngDataUrl) (attached []) =
     (\<lparr>userInput = [],
       messages = [\<lparr>role = user, text_msg = Some ''What is in this image?'', imageUrl = Some pngDataUrl\<rparr>],
       isLoading = False, selectedImage = Some pngFile, imagePreview = Some pngDataUrl, error = []\<rparr>,
      Some (Error ''Rate limit exceeded''))
   \<and> submitThenLoad (fetchVision digitsByteLength (alwaysThrows (Error ''429 rate_limit_exceeded'')))
     None (attached []) =
     (\<lparr>userInput = [], messages = [],
       isLoading = False, selectedImage = Some pngFile, imagePreview = Some pngDataUrl, error = []\<rparr>,
      Some (Error ''Failed to process image''))"
  by (simp add: submitThenLoad_def attached_def truthy_def trim_def base64Image_def pngDataUrl_def
      at_index_def handleSubmit_def submitTry_def onloadendRequest_def orElse_def onloadend_def
      onloadendResponse_def fetchVision_def POST_def tryBlock_def digitsByteLength_def
      alwaysThrows_def json_response_def ok_def)

text \<open>
  In general: the \<open>try\<close> block of \<open>handleSubmit\<close> never throws, and no callback of the
  reader writes the error state.
\<close>

lemma submitTry_never_throws: "submitTry st0 st \<noteq> Inl e"
  by (simp add: submitTry_def Let_def)

lemma callbacks_keep_error:
  "error (fst (onloadendRequest r result st)) = error st"
  "error (fst (onloadendResponse fetched st)) = error st"
  "error (fst (onloadend fetch r result st)) = error st"
  "error (fst (onerror st)) = error st"
  by (auto simp add: onloadendRequest_def onloadendResponse_def onloadend_def onerror_def
      split: sum.splits prod.splits)

text \<open>
  Claim C5 at a submission with an attachment. When \<open>handleSubmit\<close> returns, the reader is
  started and the request not yet sent, but the loading flag is already false: the submit
  button and the file input are enabled, and a second submission starts a second reader,
  hence a second request.
\<close>

theorem loading_cleared_before_request:
  "(case handleSubmit (attached []) of
      (st1, None) \<Rightarrow> False
    | (st1, Some r) \<Rightarrow>
        \<not> isLoading st1 \<and> \<not> submitDisabled st1 \<and> \<not> inputDisabled st1
        \<and> snd (handleSubmit st1) = Some r)"
  by (simp add: attached_def truthy_def trim_def handleSubmit_def submitTry_def
      submitDisabled_def inputDisabled_def)

text \<open>In general, the loading flag is false after every submission that is not a no-op.\<close>

lemma handleSubmit_not_loading:
  "isLoading (fst (handleSubmit st)) = (isLoading st \<and> \<not> truthy (trim (userInput st)) \<and> selectedImage st = None)"
  by (auto simp add: handleSubmit_def submitTry_def Let_def)

end
